theory Spec2Isabelle
  imports Complex_Main
begin

section \<open>Numbers\<close>

text \<open>
  The scene graph of \<^verbatim>\<open>src/js/entity.js\<close> works on JavaScript numbers, which are
  IEEE 754 doubles. A double is a finite number, one of the two infinities or
  \<^verbatim>\<open>NaN\<close>. The two zeros are one value here: they compare equal, and nothing below
  divides or takes a sign of zero.
\<close>

datatype double = Finite real | PInf | NInf | NaN

text \<open>
  Rounding to the nearest double, ties to even. \<open>rne\<close> rounds a real to the nearest
  integer, a tie to the even one. A finite double has a significand of 53 bits, so the
  doubles next to \<open>x\<close> are \<open>ulp x\<close> apart, where \<open>exponent x\<close> is the binary exponent
  of \<open>x\<close> and no less than the one of the subnormal numbers. \<open>nearest x\<close> is the
  multiple of \<open>ulp x\<close> nearest to \<open>x\<close>, and a result that reaches \<open>2 ^ 1024\<close>
  overflows to an infinity.
\<close>

definition rne :: "real \<Rightarrow> int" where
  "rne y =
     (let f = \<lfloor>y\<rfloor>; d = y - of_int f
      in if d < 1 / 2 then f else if 1 / 2 < d then f + 1 else if even f then f else f + 1)"

definition exponent :: "real \<Rightarrow> int" where
  "exponent x = max \<lfloor>log 2 \<bar>x\<bar>\<rfloor> (- 1022)"

definition ulp :: "real \<Rightarrow> real" where
  "ulp x = 2 powr of_int (exponent x - 52)"

definition nearest :: "real \<Rightarrow> real" where
  "nearest x = (if x = 0 then 0 else ulp x * of_int (rne (x / ulp x)))"

definition overflow :: real where
  "overflow = 2 ^ 1024"

definition rnd :: "real \<Rightarrow> double" where
  "rnd x =
     (let r = nearest x
      in if overflow \<le> r then PInf else if r \<le> - overflow then NInf else Finite r)"

text \<open>
  The operators of the language on doubles: \<^verbatim>\<open>+\<close>, unary and binary \<^verbatim>\<open>-\<close>,
  \<^verbatim>\<open>*\<close>, \<^verbatim>\<open>Math.abs\<close>, \<^verbatim>\<open><\<close> and \<^verbatim>\<open><=\<close>. The result of an
  operation on finite numbers is the exact result, rounded; \<^verbatim>\<open>NaN\<close> compares false
  with everything.
\<close>

instantiation double :: "{zero, one, plus, uminus, minus, times, abs, ord}"
begin

definition zero_double_def: "0 = Finite 0"

definition one_double_def: "1 = Finite 1"

fun uminus_double :: "double \<Rightarrow> double" where
  "- Finite a = Finite (- a)"
| "- PInf = NInf"
| "- NInf = PInf"
| "- NaN = NaN"

fun plus_double :: "double \<Rightarrow> double \<Rightarrow> double" where
  "Finite a + Finite b = rnd (a + b)"
| "NaN + y = NaN"
| "x + NaN = NaN"
| "PInf + NInf = NaN"
| "NInf + PInf = NaN"
| "PInf + y = PInf"
| "x + PInf = PInf"
| "NInf + y = NInf"
| "x + NInf = NInf"

definition minus_double_def: "x - y = x + (- y :: double)"

fun times_double :: "double \<Rightarrow> double \<Rightarrow> double" where
  "Finite a * Finite b = rnd (a * b)"
| "NaN * y = NaN"
| "x * NaN = NaN"
| "Finite a * PInf = (if a = 0 then NaN else if 0 < a then PInf else NInf)"
| "Finite a * NInf = (if a = 0 then NaN else if 0 < a then NInf else PInf)"
| "PInf * Finite b = (if b = 0 then NaN else if 0 < b then PInf else NInf)"
| "NInf * Finite b = (if b = 0 then NaN else if 0 < b then NInf else PInf)"
| "PInf * PInf = PInf"
| "PInf * NInf = NInf"
| "NInf * PInf = NInf"
| "NInf * NInf = PInf"

fun abs_double :: "double \<Rightarrow> double" where
  "\<bar>Finite a\<bar> = Finite \<bar>a\<bar>"
| "\<bar>PInf\<bar> = PInf"
| "\<bar>NInf\<bar> = PInf"
| "\<bar>NaN\<bar> = NaN"

fun less_double :: "double \<Rightarrow> double \<Rightarrow> bool" where
  "Finite a < Finite b = (a < b)"
| "NaN < y = False"
| "x < NaN = False"
| "x < NInf = False"
| "PInf < y = False"
| "NInf < y = True"
| "Finite a < PInf = True"

fun less_eq_double :: "double \<Rightarrow> double \<Rightarrow> bool" where
  "Finite a \<le> Finite b = (a \<le> b)"
| "NaN \<le> y = False"
| "x \<le> NaN = False"
| "NInf \<le> y = True"
| "x \<le> PInf = True"
| "PInf \<le> y = False"
| "Finite a \<le> NInf = False"

instance ..

end


section \<open>Geometry values\<close>

text \<open>
  The fields \<^verbatim>\<open>x\<close> and \<^verbatim>\<open>y\<close> of a vector and of a rectangle are written
  \<open>v_x\<close>, \<open>v_y\<close>, \<open>r_x\<close>, \<open>r_y\<close>.
\<close>

record vector2 =
  v_x :: double
  v_y :: double

record rectangle =
  r_x :: double
  r_y :: double
  width :: double
  height :: double

definition Vector2 :: "double \<Rightarrow> double \<Rightarrow> vector2" where
  "Vector2 a b = \<lparr>v_x = a, v_y = b\<rparr>"

definition Rectangle :: "double \<Rightarrow> double \<Rightarrow> double \<Rightarrow> double \<Rightarrow> rectangle" where
  "Rectangle a b w h = \<lparr>r_x = a, r_y = b, width = w, height = h\<rparr>"

text \<open>
  Modelled from the spec: the module \<^verbatim>\<open>bento/math/rectangle\<close> is not among the
  sources; only its calls in \<^verbatim>\<open>entity.js\<close> are. \<open>clone\<close> copies a rectangle,
  \<open>offset\<close> is the rectangle moved by a vector (``bounding box offset by an optional
  vector''), and \<open>intersect\<close> is the half-open overlap test of the spec: ``overlap iff
  both axes have min < other.max and max > other.min''.
\<close>

definition clone :: "rectangle \<Rightarrow> rectangle" where
  "clone r = Rectangle (r_x r) (r_y r) (width r) (height r)"

definition offset :: "rectangle \<Rightarrow> vector2 \<Rightarrow> rectangle" where
  "offset r p = Rectangle (r_x r + v_x p) (r_y r + v_y p) (width r) (height r)"

definition intersect :: "rectangle \<Rightarrow> rectangle \<Rightarrow> bool" where
  "intersect a b =
     (r_x a < r_x b + width b \<and> r_x a + width a > r_x b \<and>
      r_y a < r_y b + height b \<and> r_y a + height a > r_y b)"


section \<open>Entities\<close>

text \<open>
  Objects live in a store and are named by references, since \<^verbatim>\<open>attach\<close> writes to the
  parent and to the child, which other objects point to. One record holds the fields that
  the functions below read or write; a plain component uses the tree fields and its hooks
  only. \<open>hooks\<close> is the set of optional methods an object has, the callback
  \<^verbatim>\<open>onCollide\<close> among them, and the field \<^verbatim>\<open>id\<close> is written \<open>id_e\<close>.

  An array is an object of the store as well: \<open>components\<close> is the reference of the
  array that \<^verbatim>\<open>this.components\<close> holds, and the elements of an array are its field
  \<open>items\<close>. So a push on the array is seen by everyone who holds it, and an assignment
  of another array to \<^verbatim>\<open>this.components\<close> is not.
\<close>

type_synonym ref = nat

datatype hook =
  Init | Start | Destroy | Update | Draw | PostDraw | Attached | OnParentAttached | OnParentCollided
| OnCollide

record entity =
  id_e :: nat
  name :: string
  isAdded :: bool
  updateWhenPaused :: int
  visible :: bool
  position :: vector2
  origin :: vector2
  dimension :: rectangle
  boundingBox :: "rectangle option"
  scale :: "vector2 option"
  parent :: "ref option"
  components :: ref
  items :: "ref option list"
  hooks :: "hook set"

type_synonym store = "ref \<Rightarrow> entity"

text \<open>
  The constructor's defaults (\<^verbatim>\<open>Entity\<close> with an empty settings object): the identifier
  comes from the counter \<^verbatim>\<open>id++\<close>, which starts at 0, and \<open>a\<close> is the reference of
  the new array of \<^verbatim>\<open>this.components = []\<close>. \<open>Array\<close> is an array object with
  the given elements.
\<close>

definition Entity :: "nat \<Rightarrow> ref \<Rightarrow> entity" where
  "Entity n a =
     \<lparr>id_e = n, name = [], isAdded = False, updateWhenPaused = 0, visible = True,
      position = Vector2 0 0, origin = Vector2 0 0, dimension = Rectangle 0 0 0 0,
      boundingBox = None, scale = Some (Vector2 1 1), parent = None, components = a,
      items = [], hooks = {Start, Destroy, Update, Draw, Attached}\<rparr>"

definition Array :: "ref option list \<Rightarrow> entity" where
  "Array xs = (Entity 0 0)\<lparr>items := xs, hooks := {}\<rparr>"


section \<open>Bounding box\<close>

text \<open>\<^verbatim>\<open>scale = this.scale ? this.scale : new Vector2(1, 1)\<close>\<close>

definition scale_of :: "entity \<Rightarrow> vector2" where
  "scale_of this = (case scale this of Some s \<Rightarrow> s | None \<Rightarrow> Vector2 1 1)"

text \<open>
  \<^verbatim>\<open>Entity.prototype.getBoundingBox\<close>. Every operation is the one of the doubles, in
  the order of the source; \<^verbatim>\<open>x2 = [x1, x1 = x2][0]\<close> makes the two variables change
  places.
\<close>

definition getBoundingBox :: "entity \<Rightarrow> rectangle" where
  "getBoundingBox this =
     (case boundingBox this of
        None \<Rightarrow>
          (let s = scale_of this;
               x1 = v_x (position this) - v_x (origin this) * v_x s;
               y1 = v_y (position this) - v_y (origin this) * v_y s;
               x2 = v_x (position this) + (width (dimension this) - v_x (origin this)) * v_x s;
               y2 = v_y (position this) + (height (dimension this) - v_y (origin this)) * v_y s;
               (x1, x2) = (if v_x s < 0 then (x2, x1) else (x1, x2));
               (y1, y2) = (if v_y s < 0 then (y2, y1) else (y1, y2))
           in Rectangle x1 y1 (x2 - x1) (y2 - y1))
      | Some bb \<Rightarrow>
          (let box = clone bb;
               s = scale_of this;
               box = box\<lparr>r_x := r_x box * \<bar>v_x s\<bar>\<rparr>;
               box = box\<lparr>r_y := r_y box * \<bar>v_y s\<bar>\<rparr>;
               box = box\<lparr>width := width box * \<bar>v_x s\<bar>\<rparr>;
               box = box\<lparr>height := height box * \<bar>v_y s\<bar>\<rparr>;
               box = box\<lparr>r_x := r_x box + v_x (position this)\<rparr>;
               box = box\<lparr>r_y := r_y box + v_y (position this)\<rparr>
           in box))"



section \<open>Collision query\<close>

text \<open>
  The values that reach \<^verbatim>\<open>collidesWith\<close>, as a candidate or as a setting: an entity
  (it has \<^verbatim>\<open>isEntity\<close>, \<^verbatim>\<open>id\<close> and \<^verbatim>\<open>getBoundingBox\<close>), an array, or
  another object that has none of the three. The query only reads its candidates, so
  they are values here, not references.
\<close>

datatype jsval = EntityV entity | ArrayV "jsval list" | ObjectV

fun isEntity :: "jsval \<Rightarrow> bool" where
  "isEntity (EntityV e) = True"
| "isEntity v = False"

fun isArray :: "jsval \<Rightarrow> bool" where
  "isArray (ArrayV a) = True"
| "isArray v = False"

text \<open>
  The events of a call: lines on the logging channel and the calls it makes into code that
  is not the entity's own (hooks of components, callbacks, the transform). A hook is
  recorded with the object it is called on and the entity passed to it, if any: the one
  stamped on its data argument, or the other entity of a collision. The callback of a
  collision query is recorded with its candidate; what it does to the candidates is not
  modelled. \<open>LogTargetLower\<close> is the warning of the modal component, with the two
  numbers it prints.
\<close>

datatype event =
  Log string
| Invoke ref hook "ref option"
| TransformDraw ref
| TransformPostDraw ref
| Callback jsval
| LogTargetLower "int option" int

text \<open>
  The settings object of \<^verbatim>\<open>collidesWith\<close>; an absent property is \<open>None\<close>. The
  callback \<^verbatim>\<open>settings.onCollide\<close> is present or not; the fields
  \<^verbatim>\<open>offset\<close>, \<^verbatim>\<open>onCollide\<close>, \<^verbatim>\<open>entity\<close> and \<^verbatim>\<open>name\<close> carry
  the suffix \<open>_s\<close>.
\<close>

record settings =
  offset_s :: "vector2 option"
  firstOnly :: "bool option"
  onCollide_s :: bool
  entity_s :: "jsval option"
  entities :: "jsval option"
  name_s :: "string option"
  family :: "string option"

text \<open>The first argument is an entity, an array (the two old call forms) or a settings object.\<close>

datatype query = QEntity entity | QArray "jsval list" | QSettings settings

text \<open>
  \<^verbatim>\<open>Bento.objects\<close>, the registry of the object manager, is outside the sources; the
  two lookups the query makes are parameters.
\<close>

record registry =
  getByName :: "string \<Rightarrow> jsval list"
  getByFamily :: "string \<Rightarrow> jsval list"

datatype result = Null | Hit jsval | Hits "jsval list"

text \<open>\<^verbatim>\<open>obj.id && obj.id === this.id\<close>: an identifier 0 is falsy.\<close>

fun same_id :: "jsval \<Rightarrow> entity \<Rightarrow> bool" where
  "same_id (EntityV e) this = (id_e e \<noteq> 0 \<and> id_e e = id_e this)"
| "same_id v this = False"

text \<open>\<^verbatim>\<open>obj.getBoundingBox && box.intersect(obj.getBoundingBox())\<close>\<close>

fun hits_box :: "rectangle \<Rightarrow> jsval \<Rightarrow> bool" where
  "hits_box box (EntityV e) = intersect box (getBoundingBox e)"
| "hits_box box v = False"

text \<open>
  The scan \<^verbatim>\<open>for (i = 0; i < array.length; ++i)\<close>, from index \<open>i\<close>, with the
  variable \<^verbatim>\<open>collisions\<close> (\<open>None\<close> is \<^verbatim>\<open>null\<close>) and the events so far.
\<close>

function scan ::
  "entity \<Rightarrow> rectangle \<Rightarrow> bool \<Rightarrow> bool \<Rightarrow> jsval list \<Rightarrow> nat \<Rightarrow> jsval list option \<Rightarrow> event list
   \<Rightarrow> result \<times> event list" where
  "scan this box callback fo array i collisions tr =
     (if i < length array then
        (let obj = array ! i in
         if same_id obj this then scan this box callback fo array (Suc i) collisions tr
         else if hits_box box obj then
           (let tr' = (if callback then tr @ [Callback obj] else tr) in
            if fo then (Hit obj, tr')
            else scan this box callback fo array (Suc i)
                   (Some ((case collisions of None \<Rightarrow> [] | Some c \<Rightarrow> c) @ [obj])) tr')
         else scan this box callback fo array (Suc i) collisions tr)
      else ((case collisions of None \<Rightarrow> Null | Some c \<Rightarrow> Hits c), tr))"
  by pat_completeness auto
termination
  by (relation "measure (\<lambda>(this, box, callback, fo, array, i, collisions, tr). length array - i)") auto

declare scan.simps [simp del]

text \<open>
  The first half of \<^verbatim>\<open>collidesWith\<close>: the candidate array, the offset, the callback
  and \<^verbatim>\<open>firstOnly\<close>, or the warning of an early \<^verbatim>\<open>return null\<close>. An explicit
  list \<^verbatim>\<open>settings.entities\<close> is wrapped in an array of its own, as the source has it
  (\<^verbatim>\<open>array = [settings.entities]\<close>). A name is truthy when it is set and not
  empty.
\<close>

fun truthy_string :: "string option \<Rightarrow> bool" where
  "truthy_string None = False"
| "truthy_string (Some []) = False"
| "truthy_string (Some (c # cs)) = True"

definition resolve ::
  "registry \<Rightarrow> query \<Rightarrow> vector2 option \<Rightarrow> bool
   \<Rightarrow> event list + (jsval list \<times> vector2 \<times> bool \<times> bool)" where
  "resolve reg q deprecated_offset deprecated_callback =
     (case q of
        QEntity e \<Rightarrow>
          Inr ([EntityV e],
               (case deprecated_offset of Some v \<Rightarrow> v | None \<Rightarrow> Vector2 0 0),
               deprecated_callback, True)
      | QArray a \<Rightarrow>
          Inr (a,
               (case deprecated_offset of Some v \<Rightarrow> v | None \<Rightarrow> Vector2 0 0),
               deprecated_callback, True)
      | QSettings s \<Rightarrow>
          (let off = (case offset_s s of Some v \<Rightarrow> v | None \<Rightarrow> Vector2 0 0);
               fo = (case firstOnly s of Some b \<Rightarrow> b | None \<Rightarrow> True);
               callback = onCollide_s s
           in case entity_s s of
                Some v \<Rightarrow>
                  if isEntity v then Inr ([v], off, callback, fo)
                  else Inl [Log ''WARNING: settings.entity is not an entity'']
              | None \<Rightarrow>
                 (case entities s of
                    Some v \<Rightarrow>
                      if isArray v then Inr ([v], off, callback, fo)
                      else Inl [Log ''WARNING: settings.entity is not an entity'']
                  | None \<Rightarrow>
                     (if truthy_string (name_s s) then
                        Inr (getByName reg (the (name_s s)), off, callback, fo)
                      else if truthy_string (family s) then
                        Inr (getByFamily reg (the (family s)), off, callback, fo)
                      else Inr ([], off, callback, fo)))))"

definition collidesWith ::
  "registry \<Rightarrow> entity \<Rightarrow> query \<Rightarrow> vector2 option \<Rightarrow> bool \<Rightarrow> result \<times> event list" where
  "collidesWith reg this q deprecated_offset deprecated_callback =
     (case resolve reg q deprecated_offset deprecated_callback of
        Inl warning \<Rightarrow> (Null, warning)
      | Inr (array, off, callback, fo) \<Rightarrow>
          if length array = 0 then (Null, [])
          else scan this (offset (getBoundingBox this) off) callback fo array 0 None [])"



section \<open>Hooks\<close>

text \<open>
  A hook of a component is code of the user: it may move entities, and it may attach and
  remove components, also of the entity that is calling it. What the hook of an object
  does to the store is a parameter of every function that calls hooks, and every call of
  a hook is recorded as an event. A hook is taken to return: one that throws or runs
  forever is outside the model, and the calls that a hook makes itself are not recorded.
\<close>

type_synonym behaviour = "ref \<Rightarrow> hook \<Rightarrow> store \<Rightarrow> store"

definition invoke ::
  "behaviour \<Rightarrow> ref \<Rightarrow> hook \<Rightarrow> ref option \<Rightarrow> store \<times> event list \<Rightarrow> store \<times> event list" where
  "invoke run c hk arg s = (run c hk (fst s), snd s @ [Invoke c hk arg])"

text \<open>The hooks that do nothing to the store.\<close>

definition idle :: behaviour where
  "idle c hk h = h"


section \<open>Attaching and removing a child\<close>

text \<open>
  The loop \<^verbatim>\<open>while (parent) { ... parent = parent.parent; }\<close> of \<^verbatim>\<open>attach\<close>,
  entered at \<open>p\<close>. It follows the parent references of the store, which may form a
  cycle; a walk that never ends is the value \<open>None\<close>.
\<close>

partial_function (option) start_ancestors ::
  "behaviour \<Rightarrow> ref option \<Rightarrow> ref \<Rightarrow> store \<times> event list \<Rightarrow> (store \<times> event list) option" where
  "start_ancestors run p child s =
     (case p of
        None \<Rightarrow> Some s
      | Some a \<Rightarrow>
          (let s = (if isAdded (fst s a) \<and> Start \<in> hooks (fst s child)
                    then invoke run child Start None s else s)
           in start_ancestors run (parent (fst s a)) child s))"

text \<open>
  \<^verbatim>\<open>Entity.prototype.attach\<close>. The result is the store, the events and the value
  returned: \<^verbatim>\<open>this\<close>, or nothing after the error.
  \<^verbatim>\<open>this.components.push(child)\<close> appends to the array that the entity holds.
\<close>

definition attach ::
  "behaviour \<Rightarrow> store \<Rightarrow> ref \<Rightarrow> ref \<Rightarrow> bool \<Rightarrow> (store \<times> event list \<times> ref option) option" where
  "attach run h this child force =
     (if \<not> force \<and> (isAdded (h child) \<or> parent (h child) \<noteq> None) then
        Some (h, [Log (''ERROR: Child '' @ name (h child) @ '' was already attached.'')], None)
      else
        (let a = components (h this);
             h = h(a := (h a)\<lparr>items := items (h a) @ [Some child]\<rparr>);
             h = h(child := (h child)\<lparr>parent := Some this\<rparr>);
             s = (h, []);
             s = (if Init \<in> hooks (fst s child) then invoke run child Init None s else s);
             s = (if Attached \<in> hooks (fst s child)
                  then invoke run child Attached (Some this) s else s)
         in if isAdded (fst s this) then
              (let s = (if Start \<in> hooks (fst s child) then invoke run child Start None s else s)
               in Some (fst s, snd s, Some this))
            else
              (case start_ancestors run
                      (Some (case parent (fst s this) of Some q \<Rightarrow> q | None \<Rightarrow> this)) child s of
                 None \<Rightarrow> None
               | Some s \<Rightarrow> Some (fst s, snd s, Some this))))"





section \<open>Passes over the components\<close>














section \<open>Modal component\<close>

text \<open>
  The component \<^verbatim>\<open>bento/components/modal\<close> with its hooks \<^verbatim>\<open>attached\<close>,
  \<^verbatim>\<open>start\<close> and \<^verbatim>\<open>destroy\<close>. \<^verbatim>\<open>Bento.objects\<close> is outside the sources:
  its state is a type parameter and its two functions, \<^verbatim>\<open>isPaused()\<close> and
  \<^verbatim>\<open>pause(level)\<close>, are parameters. The level passed to \<^verbatim>\<open>pause\<close> is
  \<open>None\<close> when the source passes \<^verbatim>\<open>undefined\<close>.
\<close>

record 'm manager =
  isPaused :: "'m \<Rightarrow> int"
  pause :: "int option \<Rightarrow> 'm \<Rightarrow> 'm"

text \<open>
  The variables of the closure (\<^verbatim>\<open>pauseLevel\<close>, \<^verbatim>\<open>oldPauseLevel\<close>,
  \<^verbatim>\<open>entity\<close>, written \<open>entity_m\<close>), the two settings read after construction,
  and the field \<^verbatim>\<open>component.pauseLevel\<close>.
\<close>

record modal =
  settings_pauseLevel :: "int option"
  surpressWarnings :: bool
  pauseLevel :: "int option"
  oldPauseLevel :: "int option"
  component_pauseLevel :: int
  entity_m :: "ref option"

definition Modal :: "int option \<Rightarrow> bool \<Rightarrow> modal" where
  "Modal level quiet =
     \<lparr>settings_pauseLevel = level, surpressWarnings = quiet, pauseLevel = level,
      oldPauseLevel = None, component_pauseLevel = 0, entity_m = None\<rparr>"

definition attached :: "modal \<Rightarrow> ref \<Rightarrow> modal" where
  "attached m e = m\<lparr>entity_m := Some e\<rparr>"

text \<open>
  A hook either returns or throws; both leave a state behind. \<^verbatim>\<open>start\<close> throws a
  \<^verbatim>\<open>TypeError\<close> at its last line when the component was never attached
  (\<^verbatim>\<open>entity\<close> is undefined), after it has set the pause level.
\<close>

datatype 'a completion = Returns 'a | Throws 'a

fun state_after :: "'a completion \<Rightarrow> 'a" where
  "state_after (Returns s) = s"
| "state_after (Throws s) = s"

text \<open>
  \<^verbatim>\<open>pauseLevel < oldPauseLevel\<close> is false for an undefined target, and
  \<^verbatim>\<open>pauseLevel || (oldPauseLevel + 1)\<close> takes the right-hand side for an undefined
  target and for 0.
\<close>

definition start ::
  "'m manager \<Rightarrow> modal \<Rightarrow> 'm \<Rightarrow> store \<Rightarrow> (modal \<times> 'm \<times> store \<times> event list) completion" where
  "start objects m g h =
     (let old = isPaused objects g;
          m = m\<lparr>oldPauseLevel := Some old\<rparr>;
          lower = (case pauseLevel m of Some p \<Rightarrow> p < old | None \<Rightarrow> False);
          tr = (if lower \<and> \<not> surpressWarnings m
                then [LogTargetLower (settings_pauseLevel m) old] else []);
          m = (if lower then m\<lparr>pauseLevel := Some (old + 1)\<rparr> else m);
          m = m\<lparr>component_pauseLevel :=
                  (case pauseLevel m of
                     Some p \<Rightarrow> if p = 0 then old + 1 else p
                   | None \<Rightarrow> old + 1)\<rparr>;
          g = pause objects (Some (component_pauseLevel m)) g
      in case entity_m m of
           None \<Rightarrow> Throws (m, g, h, tr)
         | Some e \<Rightarrow>
             Returns (m, g, h(e := (h e)\<lparr>updateWhenPaused := component_pauseLevel m\<rparr>), tr))"

definition destroy :: "'m manager \<Rightarrow> modal \<Rightarrow> 'm \<Rightarrow> 'm" where
  "destroy objects m g =
     (if isPaused objects g \<noteq> component_pauseLevel m then g
      else pause objects (oldPauseLevel m) g)"

text \<open>
  A manager that is a single integer, for the examples: \<^verbatim>\<open>pause\<close> stores the level
  it is given.
\<close>

definition level_manager :: "int manager" where
  "level_manager =
     \<lparr>isPaused = (\<lambda>g. g), pause = (\<lambda>level g. case level of Some n \<Rightarrow> n | None \<Rightarrow> g)\<rparr>"


section \<open>Renderers\<close>

text \<open>
  The drawing context of the host (a canvas 2D context) with the properties the software
  renderer touches and the rectangles painted on it, each with the style and the opacity
  in force. An assignment to \<^verbatim>\<open>globalAlpha\<close> stores the value; the range check of
  the host is not modelled. Contexts are objects: the renderer holds references into a
  store of them.
\<close>

datatype paint =
  FillRect string real real real real real
| StrokeRect string real real real real real

record context2d =
  globalAlpha :: real
  fillStyle :: string
  strokeStyle :: string
  imageSmoothingEnabled :: bool
  webkitImageSmoothingEnabled :: bool
  mozImageSmoothingEnabled :: bool
  painted :: "paint list"

text \<open>A colour at the contract boundary: an array of four numbers.\<close>

record color =
  red :: real
  green :: real
  blue :: real
  alpha :: real

text \<open>\<^verbatim>\<open>('00' + Math.floor(c * 255).toString(16)).slice(-2)\<close>\<close>

definition hexdigit :: "nat \<Rightarrow> char" where
  "hexdigit n = ''0123456789abcdef'' ! (n mod 16)"

function toString16 :: "nat \<Rightarrow> string" where
  "toString16 n = (if n < 16 then [hexdigit n] else toString16 (n div 16) @ [hexdigit n])"
  by pat_completeness auto
termination
  by (relation "measure (\<lambda>n. n)") auto

declare toString16.simps [simp del]

definition channel :: "real \<Rightarrow> string" where
  "channel c =
     (let n = \<lfloor>c * 255\<rfloor>;
          s = ''00'' @ (if n < 0 then CHR ''-'' # toString16 (nat (- n)) else toString16 (nat n))
      in drop (length s - 2) s)"

definition colorStr :: "color \<Rightarrow> string" where
  "colorStr c = ''#'' @ channel (red c) @ channel (green c) @ channel (blue c)"

text \<open>
  The software renderer \<^verbatim>\<open>bento/renderers/canvas2d\<close>: the variables
  \<^verbatim>\<open>context\<close> (written \<open>context_c\<close>) and \<^verbatim>\<open>original\<close> of its closure,
  and the store of contexts.
\<close>

record canvas2d =
  contexts :: "ref \<Rightarrow> context2d"
  context_c :: ref
  original :: ref

definition Canvas2d :: "(ref \<Rightarrow> context2d) \<Rightarrow> ref \<Rightarrow> bool \<Rightarrow> canvas2d" where
  "Canvas2d cs c smoothing =
     (let ctx = cs c;
          ctx = (if \<not> smoothing then
                   ctx\<lparr>imageSmoothingEnabled := False, webkitImageSmoothingEnabled := False,
                       mozImageSmoothingEnabled := False\<rparr>
                 else ctx)
      in \<lparr>contexts = cs(c := ctx), context_c = c, original = c\<rparr>)"

definition fillRect :: "canvas2d \<Rightarrow> color \<Rightarrow> real \<Rightarrow> real \<Rightarrow> real \<Rightarrow> real \<Rightarrow> canvas2d" where
  "fillRect r colorArray x y w h =
     (let ctx = contexts r (context_c r);
          oldOpacity = globalAlpha ctx;
          ctx = (if alpha colorArray \<noteq> 1 then ctx\<lparr>globalAlpha := alpha colorArray\<rparr> else ctx);
          ctx = ctx\<lparr>fillStyle := colorStr colorArray\<rparr>;
          ctx = ctx\<lparr>painted := painted ctx @ [FillRect (fillStyle ctx) (globalAlpha ctx) x y w h]\<rparr>;
          ctx = (if alpha colorArray \<noteq> 1 then ctx\<lparr>globalAlpha := oldOpacity\<rparr> else ctx)
      in r\<lparr>contexts := (contexts r)(context_c r := ctx)\<rparr>)"

definition strokeRect :: "canvas2d \<Rightarrow> color \<Rightarrow> real \<Rightarrow> real \<Rightarrow> real \<Rightarrow> real \<Rightarrow> canvas2d" where
  "strokeRect r colorArray x y w h =
     (let ctx = contexts r (context_c r);
          oldOpacity = globalAlpha ctx;
          ctx = (if alpha colorArray \<noteq> 1 then ctx\<lparr>globalAlpha := alpha colorArray\<rparr> else ctx);
          ctx = ctx\<lparr>strokeStyle := colorStr colorArray\<rparr>;
          ctx = ctx\<lparr>painted := painted ctx @ [StrokeRect (strokeStyle ctx) (globalAlpha ctx) x y w h]\<rparr>;
          ctx = (if alpha colorArray \<noteq> 1 then ctx\<lparr>globalAlpha := oldOpacity\<rparr> else ctx)
      in r\<lparr>contexts := (contexts r)(context_c r := ctx)\<rparr>)"

definition getOpacity :: "canvas2d \<Rightarrow> real" where
  "getOpacity r = globalAlpha (contexts r (context_c r))"

definition setOpacity :: "canvas2d \<Rightarrow> real \<Rightarrow> canvas2d" where
  "setOpacity r v =
     r\<lparr>contexts := (contexts r)(context_c r := (contexts r (context_c r))\<lparr>globalAlpha := v\<rparr>)\<rparr>"

text \<open>
  The accelerated renderer \<^verbatim>\<open>bento/renderers/webgl\<close>, as far as redirection goes:
  the variables \<^verbatim>\<open>glRenderer\<close> and \<^verbatim>\<open>original\<close> (written \<open>original_gl\<close>)
  of its closure, both references to sprite renderers of the host.
\<close>

record webgl =
  glRenderer :: ref
  original_gl :: ref

text \<open>
  What setup returns is one of the two. The constructor of the accelerated renderer is
  given the result of its probe (\<^verbatim>\<open>canWebGl\<close>), whether \<^verbatim>\<open>window.GlSprites\<close> is
  defined, and the sprite renderer it would create; when the probe fails it returns the
  software renderer on the same canvas.
\<close>

datatype renderer = WebGL webgl | Canvas canvas2d

definition webgl_renderer ::
  "bool \<Rightarrow> bool \<Rightarrow> ref \<Rightarrow> (ref \<Rightarrow> context2d) \<Rightarrow> ref \<Rightarrow> bool \<Rightarrow> renderer" where
  "webgl_renderer canWebGl glSprites sprites cs c smoothing =
     (if canWebGl \<and> glSprites then WebGL \<lparr>glRenderer = sprites, original_gl = sprites\<rparr>
      else Canvas (Canvas2d cs c smoothing))"

fun setContext :: "renderer \<Rightarrow> ref \<Rightarrow> renderer" where
  "setContext (WebGL r) ctx = WebGL (r\<lparr>glRenderer := ctx\<rparr>)"
| "setContext (Canvas r) ctx = Canvas (r\<lparr>context_c := ctx\<rparr>)"

fun restoreContext :: "renderer \<Rightarrow> renderer" where
  "restoreContext (WebGL r) = WebGL (r\<lparr>glRenderer := original_gl r\<rparr>)"
| "restoreContext (Canvas r) = Canvas (r\<lparr>context_c := original r\<rparr>)"

text \<open>The target that the next draw call of a renderer goes to.\<close>

fun active :: "renderer \<Rightarrow> ref" where
  "active (WebGL r) = glRenderer r"
| "active (Canvas r) = context_c r"


text \<open>The context that a renderer captured when it was constructed.\<close>

fun original_of :: "renderer \<Rightarrow> ref" where
  "original_of (WebGL r) = original_gl r"
| "original_of (Canvas r) = original r"



section \<open>Vocabulary of the properties\<close>

text \<open>
  A real number is a double when rounding leaves it as it is. The arithmetic of one axis
  of the bounding box, for the position \<open>p\<close>, the origin \<open>c\<close>, the dimension \<open>d\<close> and
  the scale \<open>s\<close>, is exact when each of its intermediate results, taken as a real number,
  is a double: then no operation rounds.
\<close>

definition is_double :: "real \<Rightarrow> bool" where
  "is_double x = (rnd x = Finite x)"














text \<open>
  A candidate of a collision query is hit when the scan does not pass it over as the
  entity itself and its bounding box overlaps the box of the query.
\<close>

definition hit :: "entity \<Rightarrow> rectangle \<Rightarrow> jsval \<Rightarrow> bool" where
  "hit this box obj = (\<not> same_id obj this \<and> hits_box box obj)"


section \<open>Example objects\<close>

text \<open>
  A registry without entries; an entity of dimension 10 by 10 at a given position; a plain
  component with a given set of hooks; and a settings object that names one entity and
  asks for all collisions. The squares are candidates of collision queries, which do not
  look at their components.
\<close>

definition no_registry :: registry where
  "no_registry = \<lparr>getByName = (\<lambda>n. []), getByFamily = (\<lambda>n. [])\<rparr>"

definition square :: "nat \<Rightarrow> real \<Rightarrow> real \<Rightarrow> entity" where
  "square n px py =
     (Entity n 0)\<lparr>position := Vector2 (Finite px) (Finite py),
                  dimension := Rectangle 0 0 (Finite 10) (Finite 10)\<rparr>"

definition component :: "hook set \<Rightarrow> entity" where
  "component hs = (Entity 0 0)\<lparr>hooks := hs\<rparr>"

definition all_collisions_with :: "entity \<Rightarrow> settings" where
  "all_collisions_with e =
     \<lparr>offset_s = None, firstOnly = Some False, onCollide_s = True,
      entity_s = Some (EntityV e), entities = None, name_s = None, family = None\<rparr>"




text \<open>
  A running tree: the root 0 and its child 1 are both live in the scheduler, 2 is a child
  of 1 that is not, and 3 is a fresh component with an \<^verbatim>\<open>init\<close> and a
  \<^verbatim>\<open>start\<close> hook. The arrays of the three entities are the objects 10, 11 and 12.
  Every other reference is a component without hooks.
\<close>

definition running_tree :: store where
  "running_tree =
     (\<lambda>r. component {})
       (0 := (Entity 0 10)\<lparr>isAdded := True\<rparr>,
        10 := Array [Some 1],
        1 := (Entity 1 11)\<lparr>isAdded := True, parent := Some 0\<rparr>,
        11 := Array [Some 2],
        2 := (Entity 2 12)\<lparr>parent := Some 1\<rparr>,
        12 := Array [],
        3 := component {Init, Start})"








text \<open>A store of drawing contexts that are all fully opaque and unpainted.\<close>

definition blank_contexts :: "ref \<Rightarrow> context2d" where
  "blank_contexts =
     (\<lambda>r. \<lparr>globalAlpha = 1, fillStyle = ''#000000'', strokeStyle = ''#000000'',
           imageSmoothingEnabled = True, webkitImageSmoothingEnabled = False,
           mozImageSmoothingEnabled = False, painted = []\<rparr>)"


section \<open>Properties of the doubles\<close>

text \<open>Rounding to the nearest integer is exact on integers, monotone and odd.\<close>

lemma rne_of_int: "rne (of_int n) = n"
  by (simp add: rne_def)








lemma ulp_pos: "0 < ulp x"
  by (simp add: ulp_def)














text \<open>A number \<open>m * 2 ^ j\<close> with a mantissa of at most 53 bits is not changed by rounding.\<close>

lemma nearest_exact:
  assumes "\<bar>m\<bar> < 2 ^ 53" and "- 1074 \<le> j"
  shows "nearest (of_int m * 2 powr of_int j) = of_int m * 2 powr of_int j"
proof (cases "m = 0")
  case True
  then show ?thesis by (simp add: nearest_def)
next
  case False
  define x :: real where "x = of_int m * 2 powr of_int j"
  have nz: "x \<noteq> 0"
    using False by (simp add: x_def)
  have ax: "\<bar>x\<bar> = of_int \<bar>m\<bar> * 2 powr of_int j"
    by (simp add: x_def abs_mult)
  have "(of_int \<bar>m\<bar> :: real) < 2 ^ 53"
    using assms(1) by (metis of_int_less_iff of_int_numeral of_int_power)
  then have "\<bar>x\<bar> < 2 ^ 53 * 2 powr of_int j"
    unfolding ax by (simp add: mult_strict_right_mono)
  also have "\<dots> = 2 powr of_int (j + 53)"
    by (simp add: powr_add)
  finally have "log 2 \<bar>x\<bar> < of_int (j + 53)"
    using nz by (simp add: log_less_iff)
  then have "\<lfloor>log 2 \<bar>x\<bar>\<rfloor> < j + 53"
    by (simp add: floor_less_iff)
  then have le: "exponent x \<le> j + 52"
    using assms(2) by (simp add: exponent_def)
  define n where "n = nat (j + 52 - exponent x)"
  have "2 powr of_int j / ulp x = 2 powr of_int (j + 52 - exponent x)"
    by (simp add: ulp_def field_simps flip: powr_diff)
  also have "\<dots> = 2 powr of_nat n"
    using le by (simp add: n_def)
  also have "\<dots> = 2 ^ n"
    by (simp add: powr_realpow)
  finally have q: "2 powr of_int j / ulp x = 2 ^ n" .
  have "x / ulp x = of_int m * (2 powr of_int j / ulp x)"
    by (simp add: x_def)
  then have "x / ulp x = of_int (m * 2 ^ n)"
    unfolding q by simp
  then have "of_int (rne (x / ulp x)) = x / ulp x"
    using rne_of_int by metis
  then have "nearest x = x"
    using nz ulp_pos [of x] by (simp add: nearest_def)
  then show ?thesis
    by (simp add: x_def)
qed


lemma rnd_exact:
  assumes "nearest x = x" and "\<bar>x\<bar> < overflow"
  shows "rnd x = Finite x"
  using assms by (simp add: rnd_def Let_def abs_less_iff not_le)

lemma rnd_of_int:
  assumes "\<bar>n\<bar> < 2 ^ 53"
  shows "rnd (of_int n) = Finite (of_int n)"
proof -
  have "nearest (of_int n) = of_int n"
    using nearest_exact [OF assms, of 0] by simp
  moreover have "\<bar>of_int n :: real\<bar> < 2 ^ 53"
    using assms by (metis of_int_abs of_int_less_iff of_int_numeral of_int_power)
  then have "\<bar>of_int n :: real\<bar> < overflow"
    by (rule less_trans) (simp add: overflow_def)
  ultimately show ?thesis
    by (rule rnd_exact)
qed

lemma rnd_0 [simp]: "rnd 0 = Finite 0"
  using rnd_of_int [of 0] by simp

lemma rnd_1 [simp]: "rnd 1 = Finite 1"
  using rnd_of_int [of 1] by simp

lemma rnd_numeral [simp]:
  "(numeral k :: int) < 2 ^ 53 \<Longrightarrow> rnd (numeral k) = Finite (numeral k)"
  using rnd_of_int [of "numeral k"] by simp

lemma rnd_neg_numeral [simp]:
  "(numeral k :: int) < 2 ^ 53 \<Longrightarrow> rnd (- numeral k) = Finite (- numeral k)"
  using rnd_of_int [of "- numeral k"] by simp



lemma rnd_not_NaN [simp]: "rnd x \<noteq> NaN"
  by (simp add: rnd_def Let_def)

lemma le_PInf [simp]: "x \<noteq> NaN \<Longrightarrow> x \<le> PInf"
  by (cases x) simp_all

lemma NInf_le [simp]: "x \<noteq> NaN \<Longrightarrow> NInf \<le> x"
  by (cases x) simp_all








section \<open>Properties of the bounding box\<close>




text \<open>Small integers are doubles.\<close>

lemma is_double_numeral [simp]:
  "is_double 0" "is_double 1"
  "(numeral k :: int) < 2 ^ 53 \<Longrightarrow> is_double (numeral k)"
  "(numeral k :: int) < 2 ^ 53 \<Longrightarrow> is_double (- numeral k)"
  by (simp_all add: is_double_def)






section \<open>Properties of the collision query\<close>

text \<open>
  With \<^verbatim>\<open>firstOnly\<close> false the scan from index \<open>i\<close> appends every hit candidate of
  the rest of the array to \<^verbatim>\<open>collisions\<close>, calls the callback on each, and returns
  \<^verbatim>\<open>null\<close> exactly when \<^verbatim>\<open>collisions\<close> was \<^verbatim>\<open>null\<close> and nothing was hit.
\<close>

lemma scan_all:
  "i \<le> length array \<Longrightarrow>
   scan this box callback False array i collisions tr =
     (let hs = filter (hit this box) (drop i array) in
      ((if collisions = None \<and> hs = [] then Null
        else Hits ((case collisions of None \<Rightarrow> [] | Some c \<Rightarrow> c) @ hs)),
       tr @ (if callback then map Callback hs else [])))"
proof (induction "length array - i" arbitrary: i collisions tr)
  case 0
  then show ?case
    by (subst scan.simps) (simp split: option.splits)
next
  case (Suc n)
  then have lt: "i < length array" by simp
  have dr: "drop i array = array ! i # drop (Suc i) array"
    using lt by (simp add: Cons_nth_drop_Suc)
  have IH: "\<And>collisions tr. scan this box callback False array (Suc i) collisions tr =
     (let hs = filter (hit this box) (drop (Suc i) array) in
      ((if collisions = None \<and> hs = [] then Null
        else Hits ((case collisions of None \<Rightarrow> [] | Some c \<Rightarrow> c) @ hs)),
       tr @ (if callback then map Callback hs else [])))"
    using Suc by simp
  show ?case
    using lt
    by (subst scan.simps) (simp add: IH dr Let_def hit_def split: option.splits)
qed

text \<open>With \<^verbatim>\<open>firstOnly\<close> true the scan stops at the first hit candidate.\<close>

lemma scan_first:
  "i \<le> length array \<Longrightarrow>
   scan this box callback True array i None tr =
     (case filter (hit this box) (drop i array) of
        [] \<Rightarrow> (Null, tr)
      | obj # rest \<Rightarrow> (Hit obj, tr @ (if callback then [Callback obj] else [])))"
proof (induction "length array - i" arbitrary: i)
  case 0
  then show ?case
    by (subst scan.simps) simp
next
  case (Suc n)
  then have lt: "i < length array" by simp
  have dr: "drop i array = array ! i # drop (Suc i) array"
    using lt by (simp add: Cons_nth_drop_Suc)
  have IH: "scan this box callback True array (Suc i) None tr =
     (case filter (hit this box) (drop (Suc i) array) of
        [] \<Rightarrow> (Null, tr)
      | obj # rest \<Rightarrow> (Hit obj, tr @ (if callback then [Callback obj] else [])))"
    using Suc by simp
  show ?case
    using lt
    by (subst scan.simps) (simp add: IH dr Let_def hit_def)
qed

lemma collidesWith_scanned:
  assumes "resolve reg q deprecated_offset deprecated_callback = Inr (array, off, callback, fo)"
  shows "collidesWith reg this q deprecated_offset deprecated_callback =
           (let hs = filter (hit this (offset (getBoundingBox this) off)) array in
            if fo then
              (case hs of
                 [] \<Rightarrow> (Null, [])
               | obj # rest \<Rightarrow> (Hit obj, if callback then [Callback obj] else []))
            else (if hs = [] then Null else Hits hs, if callback then map Callback hs else []))"
proof (cases fo)
  case True
  then show ?thesis
    using scan_first [of 0 array this "offset (getBoundingBox this) off" callback "[]"]
    by (auto simp: collidesWith_def assms Let_def split: list.splits)
next
  case False
  then show ?thesis
    using scan_all [of 0 array this "offset (getBoundingBox this) off" callback None "[]"]
    by (auto simp: collidesWith_def assms Let_def)
qed

lemma resolve_firstOnly:
  "resolve reg (QSettings s) deprecated_offset deprecated_callback = Inr (array, off, callback, fo) \<Longrightarrow>
   fo = (case firstOnly s of Some b \<Rightarrow> b | None \<Rightarrow> True)"
  by (auto simp: resolve_def Let_def split: option.splits if_splits)

text \<open>
  Claim C1, as the code has it. For a call with \<^verbatim>\<open>firstOnly\<close> false whose candidates
  come from \<^verbatim>\<open>settings.entity\<close>, \<^verbatim>\<open>settings.name\<close> or
  \<^verbatim>\<open>settings.family\<close>: the result is \<^verbatim>\<open>null\<close> when no candidate is hit, be the
  candidate set empty or not, and otherwise it is the sequence of all hit candidates in
  the order of the candidate set. An empty collection is never returned.
\<close>

theorem collidesWith_all_hits:
  assumes "firstOnly s = Some False"
    and "entity_s s \<noteq> None \<or> entities s = None"
    and "resolve reg (QSettings s) deprecated_offset deprecated_callback
           = Inr (array, off, callback, fo)"
  shows "fst (collidesWith reg this (QSettings s) deprecated_offset deprecated_callback) =
           (if filter (hit this (offset (getBoundingBox this) off)) array = [] then Null
            else Hits (filter (hit this (offset (getBoundingBox this) off)) array)) \<and>
         fst (collidesWith reg this (QSettings s) deprecated_offset deprecated_callback) \<noteq> Hits []"
proof -
  have "fo = False"
    using resolve_firstOnly [OF assms(3)] assms(1) by simp
  then show ?thesis
    using collidesWith_scanned [OF assms(3), of this] by (simp add: Let_def)
qed

text \<open>
  A query by name over four squares: the entity itself (identifier 1), two that overlap
  it and one that only touches its corner. Both overlapping squares are returned, in
  order.
\<close>

theorem collidesWith_all_hits_witness:
  "fst (collidesWith
          (no_registry\<lparr>getByName :=
             (\<lambda>n. [EntityV (square 1 0 0), EntityV (square 2 5 5), EntityV (square 3 10 10),
                   EntityV (square 4 (- 5) 0)])\<rparr>)
          (square 1 0 0)
          (QSettings ((all_collisions_with (square 1 0 0))\<lparr>entity_s := None, name_s := Some ''box''\<rparr>))
          None False)
     = Hits [EntityV (square 2 5 5), EntityV (square 4 (- 5) 0)]"
proof -
  let ?reg = "no_registry\<lparr>getByName :=
             (\<lambda>n. [EntityV (square 1 0 0), EntityV (square 2 5 5), EntityV (square 3 10 10),
                   EntityV (square 4 (- 5) 0)])\<rparr>"
  let ?s = "(all_collisions_with (square 1 0 0))\<lparr>entity_s := None, name_s := Some ''box''\<rparr>"
  have first: "firstOnly ?s = Some False"
    by (simp add: all_collisions_with_def)
  have branch: "entity_s ?s \<noteq> None \<or> entities ?s = None"
    by (simp add: all_collisions_with_def)
  have res: "resolve ?reg (QSettings ?s) None False =
               Inr ([EntityV (square 1 0 0), EntityV (square 2 5 5), EntityV (square 3 10 10),
                     EntityV (square 4 (- 5) 0)], Vector2 0 0, True, False)"
    by (simp add: resolve_def all_collisions_with_def Let_def)
  show ?thesis
    using collidesWith_all_hits [OF first branch res, of "square 1 0 0"]
    by (simp add: hit_def square_def Entity_def getBoundingBox_def scale_of_def offset_def
        intersect_def Vector2_def Rectangle_def Let_def zero_double_def one_double_def
        minus_double_def)
qed

text \<open>
  The claim as stated fails: entity 1 queried against the single entity 2, which lies far
  away, has a non-empty candidate set without any overlap, and the call returns
  \<^verbatim>\<open>null\<close>, not an empty collection.
\<close>

theorem collidesWith_no_hits_counterexample:
  "resolve no_registry (QSettings (all_collisions_with (square 2 100 100))) None False
     = Inr ([EntityV (square 2 100 100)], Vector2 0 0, True, False) \<and>
   \<not> hits_box (offset (getBoundingBox (square 1 0 0)) (Vector2 0 0)) (EntityV (square 2 100 100)) \<and>
   fst (collidesWith no_registry (square 1 0 0)
          (QSettings (all_collisions_with (square 2 100 100))) None False) = Null \<and>
   fst (collidesWith no_registry (square 1 0 0)
          (QSettings (all_collisions_with (square 2 100 100))) None False) \<noteq> Hits []"
  by (simp add: collidesWith_def resolve_def all_collisions_with_def Let_def scan.simps
      square_def Entity_def getBoundingBox_def scale_of_def offset_def intersect_def
      Vector2_def Rectangle_def zero_double_def one_double_def minus_double_def)

text \<open>
  An explicit list \<^verbatim>\<open>settings.entities\<close> is scanned as a single candidate, the
  list itself, which has no bounding box: whatever the list holds, the query returns
  \<^verbatim>\<open>null\<close> and calls nothing.
\<close>

lemma explicit_list_never_hits:
  assumes "entity_s s = None" and "entities s = Some (ArrayV es)"
  shows "collidesWith reg this (QSettings s) deprecated_offset deprecated_callback = (Null, [])"
  using assms
  by (simp add: collidesWith_def resolve_def Let_def scan.simps)

text \<open>
  Self-exclusion. Every candidate that a query returns or passes to its callback is hit,
  so it is not one that the scan passed over; and the scan passes over the candidates
  that carry the entity's own identifier, provided that identifier is not 0.
\<close>

lemma collidesWith_only_hits:
  assumes "resolve reg q deprecated_offset deprecated_callback = Inr (array, off, callback, fo)"
    and "collidesWith reg this q deprecated_offset deprecated_callback = (res, tr)"
  shows "(res = Hit obj \<or> (\<exists>hs. res = Hits hs \<and> obj \<in> set hs) \<or> Callback obj \<in> set tr)
         \<Longrightarrow> obj \<in> set array \<and> hit this (offset (getBoundingBox this) off) obj"
proof -
  let ?hs = "filter (hit this (offset (getBoundingBox this) off)) array"
  assume a: "res = Hit obj \<or> (\<exists>hs. res = Hits hs \<and> obj \<in> set hs) \<or> Callback obj \<in> set tr"
  have "obj \<in> set ?hs"
  proof (cases fo)
    case True
    show ?thesis
    proof (cases ?hs)
      case Nil
      with True a assms(2) collidesWith_scanned [OF assms(1), of this] show ?thesis
        by (auto simp: Let_def)
    next
      case (Cons x xs)
      with True a assms(2) collidesWith_scanned [OF assms(1), of this] have "obj = x"
        by (auto simp: Let_def split: if_splits)
      with Cons show ?thesis by simp
    qed
  next
    case False
    with a assms(2) collidesWith_scanned [OF assms(1), of this] show ?thesis
      by (auto simp: Let_def split: if_splits)
  qed
  then show ?thesis by simp
qed

lemma self_excluded_unless_zero:
  assumes "resolve reg q deprecated_offset deprecated_callback = Inr (array, off, callback, fo)"
    and "collidesWith reg this q deprecated_offset deprecated_callback = (res, tr)"
    and "id_e this \<noteq> 0" and "id_e e = id_e this"
  shows "res \<noteq> Hit (EntityV e) \<and> (\<forall>hs. res = Hits hs \<longrightarrow> EntityV e \<notin> set hs) \<and>
         Callback (EntityV e) \<notin> set tr"
proof -
  have "\<not> hit this (offset (getBoundingBox this) off) (EntityV e)"
    using assms(3,4) by (simp add: hit_def)
  then show ?thesis
    using collidesWith_only_hits [OF assms(1,2), of "EntityV e"] by blast
qed

text \<open>
  Claim C6 at the first entity ever constructed, whose identifier is 0: queried against
  itself, it is not passed over; the call returns the entity itself as a hit and passes it
  to the callback. The same query by the entity with identifier 1 returns
  \<^verbatim>\<open>null\<close>.
\<close>

theorem collidesWith_self_id_zero:
  "collidesWith no_registry (square 0 0 0) (QEntity (square 0 0 0)) None True
     = (Hit (EntityV (square 0 0 0)), [Callback (EntityV (square 0 0 0))]) \<and>
   collidesWith no_registry (square 1 0 0) (QEntity (square 1 0 0)) None True = (Null, [])"
  by (simp add: collidesWith_def resolve_def Let_def scan.simps
      square_def Entity_def getBoundingBox_def scale_of_def offset_def intersect_def
      Vector2_def Rectangle_def zero_double_def one_double_def minus_double_def)

section \<open>Calls that keep the store\<close>





















section \<open>Properties of attach\<close>









text \<open>
  Claim C2 in the running tree, with idle hooks: the fresh component 3, which has a
  \<^verbatim>\<open>start\<close> hook, is attached to entity 2. Entity 2 is not live, its ancestors 1 and 0
  both are, and \<^verbatim>\<open>start\<close> is called twice during the one attach.
\<close>

theorem attach_starts_twice:
  "\<not> isAdded (running_tree 2) \<and>
   parent (running_tree 2) = Some 1 \<and> isAdded (running_tree 1) \<and>
   parent (running_tree 1) = Some 0 \<and> isAdded (running_tree 0) \<and>
   Start \<in> hooks (running_tree 3) \<and>
   map_option (\<lambda>(h', tr, r). tr) (attach idle running_tree 2 3 False)
     = Some [Invoke 3 Init None, Invoke 3 Start None, Invoke 3 Start None]"
  by (simp add: attach_def running_tree_def component_def Entity_def Array_def Let_def
      start_ancestors.simps invoke_def idle_def)


section \<open>Properties of the passes over the components\<close>

























section \<open>Properties of the modal component\<close>

text \<open>
  Claim C7. The manager is taken to store the level it is given, which is all the spec
  says of it. After a modal has started, whether \<^verbatim>\<open>start\<close> returned or threw at its
  last line, the pause level is the one the modal set, and the modal remembers the level
  that was in effect before. A later \<^verbatim>\<open>destroy\<close>, at whatever state \<open>g2\<close> the
  manager has reached: if the pause level still is the one the modal set, it becomes the
  remembered level again; if it is any other, the manager is left as it is.
\<close>

theorem modal_destroy:
  assumes "\<forall>n g. isPaused objects (pause objects (Some n) g) = n"
    and "state_after (start objects m g h) = (m', g', h', tr)"
  shows "isPaused objects g' = component_pauseLevel m' \<and>
         oldPauseLevel m' = Some (isPaused objects g) \<and>
         (isPaused objects g2 = component_pauseLevel m' \<longrightarrow>
            isPaused objects (destroy objects m' g2) = isPaused objects g) \<and>
         (isPaused objects g2 \<noteq> component_pauseLevel m' \<longrightarrow> destroy objects m' g2 = g2)"
  using assms
  by (auto simp: start_def destroy_def Let_def split: option.splits if_splits)

text \<open>
  The scenario of the spec on the integer manager. A modal attached to entity 1 starts at
  level 0: the level becomes 1 and entity 1 is exempt at level 1. Destroyed while the
  level is 1, it restores level 0; destroyed after a nested modal has raised the level to
  2, it leaves the level at 2.
\<close>

theorem modal_destroy_witness:
  "(\<exists>m' h'. start level_manager (attached (Modal None False) 1) 0 running_tree
              = Returns (m', 1, h', []) \<and>
      component_pauseLevel m' = 1 \<and> updateWhenPaused (h' 1) = 1 \<and>
      destroy level_manager m' 1 = 0 \<and>
      (\<exists>m2 h2. start level_manager (attached (Modal None False) 2) 1 h'
                  = Returns (m2, 2, h2, []) \<and>
         destroy level_manager m' 2 = 2))"
proof -
  have contract: "\<forall>n g. isPaused level_manager (pause level_manager (Some n) g) = n"
    by (simp add: level_manager_def)
  obtain m' h' where st:
    "start level_manager (attached (Modal None False) 1) 0 running_tree = Returns (m', 1, h', [])"
    by (simp add: start_def attached_def Modal_def level_manager_def Let_def)
  then have after: "state_after (start level_manager (attached (Modal None False) 1) 0 running_tree)
                      = (m', 1, h', [])"
    by simp
  have lvl: "component_pauseLevel m' = 1"
    using modal_destroy [OF contract after, of 1] by (simp add: level_manager_def)
  have "destroy level_manager m' 1 = 0"
    using modal_destroy [OF contract after, of 1] lvl by (simp add: level_manager_def)
  moreover have "destroy level_manager m' 2 = 2"
    using modal_destroy [OF contract after, of 2] lvl by (simp add: level_manager_def)
  moreover have "updateWhenPaused (h' 1) = 1"
    using st by (auto simp: start_def attached_def Modal_def level_manager_def Let_def)
  moreover have "\<exists>m2 h2. start level_manager (attached (Modal None False) 2) 1 h'
                  = Returns (m2, 2, h2, [])"
    by (simp add: start_def attached_def Modal_def level_manager_def Let_def)
  ultimately show ?thesis
    using st lvl by blast
qed


section \<open>Properties of the renderers\<close>

text \<open>
  Claim C9. On the software renderer \<^verbatim>\<open>fillRect\<close> and \<^verbatim>\<open>strokeRect\<close> leave the
  opacity as it was, for every colour and rectangle, whether the alpha of the colour is 1
  or not.
\<close>

theorem fillRect_opacity:
  "getOpacity (fillRect r c x y w h) = getOpacity r \<and>
   getOpacity (strokeRect r c x y w h) = getOpacity r"
  by (simp add: getOpacity_def fillRect_def strokeRect_def Let_def)

text \<open>
  A half-transparent red rectangle on a renderer whose opacity was set to 0.8: it is
  painted with opacity 0.5, and the opacity is 0.8 afterwards.
\<close>

theorem fillRect_opacity_witness:
  "getOpacity (fillRect (setOpacity (Canvas2d blank_contexts 0 True) 0.8)
                 \<lparr>red = 1, green = 0, blue = 0, alpha = 0.5\<rparr> 0 0 4 3) = 0.8 \<and>
   painted (contexts (fillRect (setOpacity (Canvas2d blank_contexts 0 True) 0.8)
                 \<lparr>red = 1, green = 0, blue = 0, alpha = 0.5\<rparr> 0 0 4 3) 0)
     = [FillRect ''#ff0000'' 0.5 0 0 4 3]"
proof -
  have "getOpacity (setOpacity (Canvas2d blank_contexts 0 True) 0.8) = 0.8"
    by (simp add: getOpacity_def setOpacity_def Canvas2d_def Let_def)
  then have "getOpacity (fillRect (setOpacity (Canvas2d blank_contexts 0 True) 0.8)
                 \<lparr>red = 1, green = 0, blue = 0, alpha = 0.5\<rparr> 0 0 4 3) = 0.8"
    using fillRect_opacity [of "setOpacity (Canvas2d blank_contexts 0 True) 0.8"
        "\<lparr>red = 1, green = 0, blue = 0, alpha = 0.5\<rparr>" 0 0 4 3]
    by simp
  moreover have "painted (contexts (fillRect (setOpacity (Canvas2d blank_contexts 0 True) 0.8)
                 \<lparr>red = 1, green = 0, blue = 0, alpha = 0.5\<rparr> 0 0 4 3) 0)
     = [FillRect ''#ff0000'' 0.5 0 0 4 3]"
    by (simp add: fillRect_def setOpacity_def Canvas2d_def blank_contexts_def Let_def
        colorStr_def channel_def toString16.simps hexdigit_def)
  ultimately show ?thesis by simp
qed

lemma original_of_setContext: "original_of (setContext r ctx) = original_of r"
  by (cases r) simp_all

lemma original_of_foldl: "original_of (foldl setContext r ctxs) = original_of r"
  by (induction ctxs arbitrary: r) (simp_all add: original_of_setContext)

lemma active_restoreContext: "active (restoreContext r) = original_of r"
  by (cases r) simp_all

text \<open>
  Claim C10. After any sequence of \<^verbatim>\<open>setContext\<close> calls, one \<^verbatim>\<open>restoreContext\<close>
  makes the target of either renderer the one captured when it was constructed: the
  sprite renderer created at setup for the accelerated back end, the 2D context of the
  canvas for the software back end (also when it is the fallback). So after two nested
  redirections, to \<open>a\<close> and then to \<open>b\<close>, a restore does not lead back to \<open>a\<close>, unless
  \<open>a\<close> is the captured target itself.
\<close>

theorem restoreContext_original:
  "active (restoreContext
             (foldl setContext (webgl_renderer canWebGl glSprites sprites cs c smoothing) ctxs))
     = (if canWebGl \<and> glSprites then sprites else c) \<and>
   active (restoreContext (foldl setContext (Canvas (Canvas2d cs c smoothing)) ctxs)) = c \<and>
   (a \<noteq> c \<longrightarrow>
      active (restoreContext
                (setContext (setContext (Canvas (Canvas2d cs c smoothing)) a) b)) \<noteq> a) \<and>
   (a \<noteq> sprites \<longrightarrow>
      active (restoreContext
                (setContext (setContext (webgl_renderer True True sprites cs c smoothing) a) b))
        \<noteq> a)"
  by (simp add: active_restoreContext original_of_foldl original_of_setContext
      webgl_renderer_def Canvas2d_def Let_def)

text \<open>
  Both back ends redirected to the surfaces 5 and then 6: one restore leads to the target
  of construction (context 0, sprite renderer 9), not to surface 5.
\<close>

theorem restoreContext_original_witness:
  "active (restoreContext (setContext (setContext (Canvas (Canvas2d blank_contexts 0 True)) 5) 6))
     = 0 \<and>
   active (restoreContext
             (setContext (setContext (webgl_renderer True True 9 blank_contexts 0 True) 5) 6))
     = 9 \<and>
   active (restoreContext
             (setContext (setContext (webgl_renderer False True 9 blank_contexts 0 True) 5) 6))
     = 0"
  using restoreContext_original [of True True 9 blank_contexts 0 True "[5, 6]" 5 6]
    restoreContext_original [of False True 9 blank_contexts 0 True "[5, 6]" 5 6]
  by simp



end
